theory Spec2Isabelle
  imports Complex_Main
begin

section \<open>Values and errors\<close>

text \<open>
  JavaScript numbers are modelled exactly: clock readings (\<open>Date.now()\<close>, milliseconds)
  and request counts as \<open>int\<close>, durations in seconds and window starts as \<open>rat\<close>.
  On the magnitudes a clock and a counter reach, IEEE doubles compute the same sums and
  comparisons; \<open>NaN\<close> and the infinities are outside the model. Console output
  (\<open>console.log\<close>, \<open>log\<close>) changes no state and is left out.
\<close>

text \<open>
  The object handed to the error constructors: \<open>{status, message, retryAfter, isLocal}\<close>,
  every property optional (\<open>None\<close> is \<open>undefined\<close>) and, when there, of the type the
  module and the service give it: numbers for \<open>status\<close> and \<open>retryAfter\<close>, a string for
  \<open>message\<close>, a boolean for \<open>isLocal\<close>.
\<close>

record error_payload =
  status :: "int option"
  message :: "string option"
  retryAfter :: "rat option"
  isLocal :: "bool option"

text \<open>
  The exceptions of the module. \<open>RatelimitError\<close> carries message, status, retryAfter and
  isLocal; \<open>HttpError\<close> message and status. \<open>Error\<close> is the plain \<open>new Error(res)\<close>,
  \<open>TypeError\<close> a property read on \<open>undefined\<close> or \<open>null\<close>, \<open>FetchError\<close> a rejected
  \<open>fetch\<close> or \<open>res.json()\<close>.
\<close>

datatype exn =
    RatelimitError string "int option" "rat option" bool
  | HttpError string "int option"
  | Error
  | TypeError
  | FetchError

fun show_nat :: "nat \<Rightarrow> string" where
  "show_nat n =
     (if n < 10 then [char_of (48 + n)]
      else show_nat (n div 10) @ [char_of (48 + n mod 10)])"

declare show_nat.simps [simp del]

definition show_status :: "int option \<Rightarrow> string" where
  "show_status s =
     (case s of
        None \<Rightarrow> ''undefined''
      | Some i \<Rightarrow> if i < 0 then ''-'' @ show_nat (nat (- i)) else show_nat (nat i))"

text \<open>\<open>error.message || `${error.status}: Verification API Error`\<close>: the empty string is falsy.\<close>

definition error_message :: "error_payload \<Rightarrow> string" where
  "error_message e =
     (case message e of
        Some m \<Rightarrow> if m \<noteq> [] then m else show_status (status e) @ '': Verification API Error''
      | None \<Rightarrow> show_status (status e) @ '': Verification API Error'')"

definition new_HttpError :: "error_payload \<Rightarrow> exn" where
  "new_HttpError e = HttpError (error_message e) (status e)"

text \<open>\<open>this.isLocal = error.isLocal || false\<close>.\<close>

definition new_RatelimitError :: "error_payload \<Rightarrow> exn" where
  "new_RatelimitError e =
     RatelimitError (error_message e) (status e) (retryAfter e)
       (case isLocal e of Some l \<Rightarrow> l | None \<Rightarrow> False)"


fun exn_isLocal :: "exn \<Rightarrow> bool option" where
  "exn_isLocal (RatelimitError m s r l) = Some l"
| "exn_isLocal _ = None"

fun is_RatelimitError :: "exn \<Rightarrow> bool" where
  "is_RatelimitError (RatelimitError m s r l) = True"
| "is_RatelimitError _ = False"

section \<open>The rate limit bucket\<close>

text \<open>
  \<open>makeRatelimit(limitNo, limitPeriod)\<close> closes over \<open>since\<close> and \<open>requestsMade\<close>; the
  closure is the record, and \<open>run\<close> and \<open>trigger\<close> take it and return it updated.
\<close>

record bucket =
  limitNo :: int
  limitPeriod :: rat
  since :: rat
  requestsMade :: int

definition makeRatelimit :: "int \<Rightarrow> rat \<Rightarrow> bucket" where
  "makeRatelimit n p = \<lparr>limitNo = n, limitPeriod = p, since = 0, requestsMade = 0\<rparr>"

text \<open>
  \<open>run()\<close> at clock reading \<open>now\<close>. A throw is \<open>Inl\<close>, and the bucket returned with it is
  the bucket after the call, so that what a failing call leaves behind is part of the result.
\<close>

definition run :: "bucket \<Rightarrow> int \<Rightarrow> (exn + unit) \<times> bucket" where
  "run b now =
     (if of_int now - since b < limitPeriod b * 1000 then
        (if requestsMade b \<ge> limitNo b then
           (Inl (new_RatelimitError
                  \<lparr>status = Some 429, message = Some ''Too many requests'',
                   retryAfter = Some (((since b + limitPeriod b * 1000) - of_int now) / 1000 + 5),
                   isLocal = Some True\<rparr>), b)
         else (Inr (), b\<lparr>requestsMade := requestsMade b + 1\<rparr>))
      else (Inr (), b\<lparr>requestsMade := 0 + 1, since := of_int now\<rparr>))"

definition trigger :: "bucket \<Rightarrow> rat \<Rightarrow> int \<Rightarrow> bucket" where
  "trigger b r now = b\<lparr>requestsMade := limitNo b, since := of_int now + r * 1000\<rparr>"

text \<open>
  A caller that invokes \<open>run()\<close> at each clock reading of a list in turn, catching what it
  throws: the outcomes in order, and the bucket at the end.
\<close>

fun run_each :: "bucket \<Rightarrow> int list \<Rightarrow> (exn + unit) list \<times> bucket" where
  "run_each b [] = ([], b)"
| "run_each b (t # ts) =
     (case run b t of (r, b') \<Rightarrow>
        (case run_each b' ts of (rs, b'') \<Rightarrow> (r # rs, b'')))"

section \<open>Values, JSON bodies and the HTTP collaborator\<close>

text \<open>
  The values an identifier can be (a number, a string, or a JSON primitive in its place)
  and the value \<open>undefined\<close> that stands for "not found" and for a cache miss.
\<close>

datatype jsval = Undefined | Null | Boolean bool | Number rat | Str string

fun truthy :: "jsval \<Rightarrow> bool" where
  "truthy Undefined = False"
| "truthy Null = False"
| "truthy (Boolean b) = b"
| "truthy (Number n) = (n \<noteq> 0)"
| "truthy (Str s) = (s \<noteq> [])"

text \<open>
  A parsed body: an object, of which the module reads the properties \<open>error\<close>,
  \<open>robloxId\<close> and \<open>discordId\<close> (an array reads as an object with none of them), or a
  primitive. \<open>error\<close> is an error object or missing (\<open>None\<close>, also for \<open>null\<close>).
\<close>

record body =
  error :: "error_payload option"
  robloxId :: jsval
  discordId :: jsval

datatype json = JObject body | JValue jsval

fun truthy_json :: "json \<Rightarrow> bool" where
  "truthy_json (JObject b) = True"
| "truthy_json (JValue v) = truthy v"

text \<open>The expression \<open>json.error\<close>: a property read on \<open>null\<close> or \<open>undefined\<close> throws.\<close>

fun get_error :: "json \<Rightarrow> exn + error_payload option" where
  "get_error (JObject b) = Inr (error b)"
| "get_error (JValue Undefined) = Inl TypeError"
| "get_error (JValue Null) = Inl TypeError"
| "get_error (JValue v) = Inr None"

text \<open>The expression \<open>full && full.p\<close> for a property \<open>p\<close> of the body.\<close>

fun and_prop :: "json \<Rightarrow> (body \<Rightarrow> jsval) \<Rightarrow> jsval" where
  "and_prop (JObject b) p = p b"
| "and_prop (JValue v) p = (if truthy v then Undefined else v)"

text \<open>
  A request as \<open>makeRequest\<close> builds it: the URL and the \<open>headers\<close> object, a list of
  property names with their values (\<open>None\<close> is the value \<open>undefined\<close>). A response is a
  status and a body, \<open>None\<close> when \<open>res.json()\<close> rejects; \<open>res.ok\<close> is a status from 200
  to 299, as the Fetch standard defines it. The collaborator answers \<open>None\<close> when
  \<open>fetch\<close> itself rejects.
\<close>

record request =
  url :: string
  headers :: "(string \<times> string option) list"

record response =
  res_status :: int
  res_json :: "json option"

definition ok :: "response \<Rightarrow> bool" where
  "ok res = (200 \<le> res_status res \<and> res_status res < 300)"

type_synonym http = "request \<Rightarrow> response option"

section \<open>The module state\<close>

record cache_item =
  item :: jsval
  expires :: rat

text \<open>
  The module-level variables. \<open>sent\<close> is not a variable of the module: it records the
  requests handed to \<open>fetch\<close>, in order.
\<close>

record state =
  useLog :: bool
  token :: "string option"
  cacheTime :: rat
  globalRatelimit :: bucket
  reverseRatelimit :: bucket
  cache :: "string \<rightharpoonup> cache_item"
  sent :: "request list"

definition initial :: state where
  "initial = \<lparr>useLog = False, token = None, cacheTime = 60,
              globalRatelimit = makeRatelimit 60 60, reverseRatelimit = makeRatelimit 30 60,
              cache = Map.empty, sent = []\<rparr>"



section \<open>The cache\<close>

definition getCache :: "state \<Rightarrow> string \<Rightarrow> int \<Rightarrow> jsval" where
  "getCache st key now =
     (case cache st key of
        Some cacheItem \<Rightarrow> if expires cacheItem > of_int now then item cacheItem else Undefined
      | None \<Rightarrow> Undefined)"

definition setCache :: "state \<Rightarrow> string \<Rightarrow> jsval \<Rightarrow> int \<Rightarrow> state" where
  "setCache st key x now =
     st\<lparr>cache := (cache st)(key \<mapsto> \<lparr>item = x, expires = of_int now + cacheTime st * 1000\<rparr>)\<rparr>"

section \<open>The client\<close>

definition BASE_URL :: string where
  "BASE_URL = ''https://verify.nezto.re''"

text \<open>\<open>json.error.retryAfter || 3000\<close>: zero is falsy.\<close>

definition retry_hint :: "error_payload \<Rightarrow> rat" where
  "retry_hint e = (case retryAfter e of Some r \<Rightarrow> if r \<noteq> 0 then r else 3000 | None \<Rightarrow> 3000)"

text \<open>
  \<open>makeRequest(uri)\<close>. The code up to \<open>await fetch\<close> runs at clock reading \<open>now\<close>, the
  code after the response has arrived at \<open>now'\<close>. Calls are modelled one at a time: no
  other call of the module runs between a request and its response.
\<close>

definition makeRequest :: "http \<Rightarrow> state \<Rightarrow> string \<Rightarrow> int \<Rightarrow> int \<Rightarrow> (exn + json) \<times> state" where
  "makeRequest fetch st uri now now' =
     (case run (globalRatelimit st) now of
        (Inl e, g) \<Rightarrow> (Inl e, st\<lparr>globalRatelimit := g\<rparr>)
      | (Inr u, g) \<Rightarrow>
          (let opt = \<lparr>url = BASE_URL @ uri, headers = [(''authorization'', token st)]\<rparr>;
               st1 = st\<lparr>globalRatelimit := g, sent := sent st @ [opt]\<rparr>
           in case fetch opt of
                None \<Rightarrow> (Inl FetchError, st1)
              | Some res \<Rightarrow>
                  (case res_json res of
                     None \<Rightarrow> (Inl FetchError, st1)
                   | Some js \<Rightarrow>
                       if ok res then (Inr js, st1)
                       else if res_status res = 429 then
                         (case get_error js of
                            Inl e \<Rightarrow> (Inl e, st1)
                          | Inr None \<Rightarrow> (Inl TypeError, st1)
                          | Inr (Some err) \<Rightarrow>
                              (Inl (new_RatelimitError err),
                               st1\<lparr>globalRatelimit := trigger g (retry_hint err) now'\<rparr>))
                       else if res_status res = 404 then (Inr (JValue Undefined), st1)
                       else
                         (case get_error js of
                            Inl e \<Rightarrow> (Inl e, st1)
                          | Inr (Some err) \<Rightarrow> (Inl (new_HttpError err), st1)
                          | Inr None \<Rightarrow> (Inl Error, st1)))))"

definition getRoblox :: "http \<Rightarrow> state \<Rightarrow> string \<Rightarrow> int \<Rightarrow> int \<Rightarrow> (exn + jsval) \<times> state" where
  "getRoblox fetch st discord_id now now' =
     (let cacheKey = ''d-'' @ discord_id;
          cachedItem = getCache st cacheKey now
      in if truthy cachedItem then (Inr cachedItem, st)
         else
           (case makeRequest fetch st (''/api/roblox/'' @ discord_id) now now' of
              (Inl e, st1) \<Rightarrow> (Inl e, st1)
            | (Inr full, st1) \<Rightarrow>
                if \<not> truthy_json full then (Inr Undefined, st1)
                else (let ret = and_prop full robloxId
                      in (Inr ret, setCache st1 cacheKey ret now'))))"

definition getDiscord :: "http \<Rightarrow> state \<Rightarrow> string \<Rightarrow> int \<Rightarrow> int \<Rightarrow> (exn + jsval) \<times> state" where
  "getDiscord fetch st roblox_id now now' =
     (let cacheKey = ''r-'' @ roblox_id;
          cachedItem = getCache st cacheKey now
      in if truthy cachedItem then (Inr cachedItem, st)
         else
           (case run (reverseRatelimit st) now of
              (Inl e, r) \<Rightarrow> (Inl e, st\<lparr>reverseRatelimit := r\<rparr>)
            | (Inr u, r) \<Rightarrow>
                (case makeRequest fetch (st\<lparr>reverseRatelimit := r\<rparr>)
                        (''/api/reverse/'' @ roblox_id) now now' of
                   (Inl e, st1) \<Rightarrow> (Inl e, st1)
                 | (Inr full, st1) \<Rightarrow>
                     if \<not> truthy_json full then (Inr Undefined, st1)
                     else (let ret = and_prop full discordId
                           in (Inr ret, setCache st1 cacheKey ret now')))))"

text \<open>
  The state once \<open>globalRatelimit.run()\<close> has let a request to \<open>uri\<close> through and the
  request has been handed to \<open>fetch\<close>.
\<close>

definition issued :: "state \<Rightarrow> string \<Rightarrow> int \<Rightarrow> state" where
  "issued st uri now =
     st\<lparr>globalRatelimit := snd (run (globalRatelimit st) now),
        sent := sent st @ [\<lparr>url = BASE_URL @ uri, headers = [(''authorization'', token st)]\<rparr>]\<rparr>"

section \<open>Collaborators and states for concrete runs\<close>

text \<open>
  A remote service that answers every request with 404 and an error body.
\<close>

definition fetch404 :: http where
  "fetch404 req =
     Some \<lparr>res_status = 404,
           res_json = Some (JObject \<lparr>error = Some \<lparr>status = Some 404, message = Some ''User not found'',
                                                  retryAfter = None, isLocal = None\<rparr>,
                                     robloxId = Undefined, discordId = Undefined\<rparr>)\<rparr>"

text \<open>
  A remote service that answers every request with 200 and a verified pair of identifiers.
\<close>

definition fetch_found :: http where
  "fetch_found req =
     Some \<lparr>res_status = 200,
           res_json = Some (JObject \<lparr>error = None, robloxId = Number 66592931, discordId = Str ''156715247174320128''\<rparr>)\<rparr>"

text \<open>
  A remote service that answers every request with 429; \<open>hint\<close> is the \<open>retryAfter\<close> of
  its error body, \<open>None\<close> when the body has none.
\<close>

definition fetch429 :: "rat option \<Rightarrow> http" where
  "fetch429 hint req =
     Some \<lparr>res_status = 429,
           res_json = Some (JObject \<lparr>error = Some \<lparr>status = Some 429, message = Some ''Too many requests'',
                                                  retryAfter = hint, isLocal = None\<rparr>,
                                     robloxId = Undefined, discordId = Undefined\<rparr>)\<rparr>"



section \<open>Properties of the bucket\<close>

lemma run_expired:
  "limitPeriod b * 1000 \<le> of_int now - since b \<Longrightarrow>
     run b now = (Inr (), b\<lparr>requestsMade := 1, since := of_int now\<rparr>)"
  by (simp add: run_def)

lemma run_active_below:
  "of_int now - since b < limitPeriod b * 1000 \<Longrightarrow> requestsMade b < limitNo b \<Longrightarrow>
     run b now = (Inr (), b\<lparr>requestsMade := requestsMade b + 1\<rparr>)"
  by (simp add: run_def)

lemma run_active_full:
  "of_int now - since b < limitPeriod b * 1000 \<Longrightarrow> limitNo b \<le> requestsMade b \<Longrightarrow>
     run b now =
       (Inl (RatelimitError ''Too many requests'' (Some 429)
              (Some ((since b + limitPeriod b * 1000 - of_int now) / 1000 + 5)) True), b)"
  by (simp add: run_def new_RatelimitError_def error_message_def)


lemma run_Inl_unchanged: "fst (run b t) = Inl e \<Longrightarrow> snd (run b t) = b"
  by (simp add: run_def split: if_splits)

lemma run_Inl_local: "fst (run b t) = Inl e \<Longrightarrow> is_RatelimitError e \<and> exn_isLocal e = Some True"
  by (auto simp: run_def new_RatelimitError_def split: if_splits)

lemma run_fields [simp]:
  "limitNo (snd (run b t)) = limitNo b" "limitPeriod (snd (run b t)) = limitPeriod b"
  by (simp_all add: run_def)

lemma trigger_fields [simp]:
  "limitNo (trigger b r t0) = limitNo b" "limitPeriod (trigger b r t0) = limitPeriod b"
  "requestsMade (trigger b r t0) = limitNo b" "since (trigger b r t0) = of_int t0 + r * 1000"
  by (simp_all add: trigger_def)

text \<open>
  C6: when the window has expired at the time of the call
  (\<open>now - since \<ge> limitPeriod * 1000\<close>), \<open>run()\<close> succeeds whatever the count was, and
  afterwards the count is 1 and the window starts at the time of the call.
\<close>

theorem run_expired_resets:
  assumes "of_int now - since b \<ge> limitPeriod b * 1000"
  shows "fst (run b now) = Inr ()
       \<and> requestsMade (snd (run b now)) = 1
       \<and> since (snd (run b now)) = of_int now"
  using assms by (simp add: run_def)

theorem run_expired_resets_witness:
  "of_int 200000 - since \<lparr>limitNo = 3, limitPeriod = 60, since = 100000, requestsMade = 7\<rparr>
      \<ge> limitPeriod \<lparr>limitNo = 3, limitPeriod = 60, since = 100000, requestsMade = 7\<rparr> * 1000
   \<and> run \<lparr>limitNo = 3, limitPeriod = 60, since = 100000, requestsMade = 7\<rparr> 200000
      = (Inr (), \<lparr>limitNo = 3, limitPeriod = 60, since = 200000, requestsMade = 1\<rparr>)"
  using run_expired_resets [of "\<lparr>limitNo = 3, limitPeriod = 60, since = 100000, requestsMade = 7\<rparr>" 200000]
  by (simp add: run_def)






lemma run_each_active_below:
  assumes "\<forall>t \<in> set ts. of_int t - since b < limitPeriod b * 1000"
    and "requestsMade b + int (length ts) \<le> limitNo b"
  shows "run_each b ts =
           (replicate (length ts) (Inr ()), b\<lparr>requestsMade := requestsMade b + int (length ts)\<rparr>)"
  using assms
proof (induction ts arbitrary: b)
  case Nil
  then show ?case by simp
next
  case (Cons t ts)
  let ?b' = "b\<lparr>requestsMade := requestsMade b + 1\<rparr>"
  from Cons.prems have r: "run b t = (Inr (), ?b')"
    by (simp add: run_active_below)
  from Cons.prems have "run_each ?b' ts =
      (replicate (length ts) (Inr ()), ?b'\<lparr>requestsMade := requestsMade ?b' + int (length ts)\<rparr>)"
    by (intro Cons.IH) simp_all
  with r show ?case by (simp add: add.assoc)
qed

lemma run_first_of_window:
  assumes "limitPeriod b * 1000 \<le> of_int t - since b \<or> requestsMade b = 0" and "0 < limitNo b"
  shows "fst (run b t) = Inr () \<and> requestsMade (snd (run b t)) = 1"
  using assms by (auto simp: run_def)

text \<open>
  C3: for a bucket with a positive limit, take \<open>limit\<close> calls of \<open>run()\<close> and one more, all in
  one window: the first call opens the window (the previous one has expired) or finds it
  open with count 0, and the later calls fall before its end. Then each of the first
  \<open>limit\<close> calls succeeds and the count after the \<open>k\<close>-th is \<open>k\<close>, one more per call; the
  call after them fails with a \<open>RatelimitError\<close> and returns the bucket as it was, the
  count still \<open>limit\<close>.
\<close>

theorem run_limit_per_window:
  assumes "0 < limitNo b" and "length ts = nat (limitNo b)"
    and "limitPeriod b * 1000 \<le> of_int (hd ts) - since b \<or> requestsMade b = 0"
    and "\<forall>t \<in> set (tl ts @ [t']). of_int t - since (snd (run b (hd ts))) < limitPeriod b * 1000"
  shows "(\<forall>k. 0 < k \<and> k \<le> length ts \<longrightarrow>
            fst (run_each b (take k ts)) = replicate k (Inr ())
          \<and> requestsMade (snd (run_each b (take k ts))) = int k)
       \<and> (\<exists>e. run (snd (run_each b ts)) t' = (Inl e, snd (run_each b ts))
             \<and> is_RatelimitError e)
       \<and> requestsMade (snd (run_each b ts)) = limitNo b"
proof -
  obtain t0 rest where ts: "ts = t0 # rest"
    using assms(1,2) by (cases ts) auto
  define b1 where "b1 = snd (run b t0)"
  have first: "run b t0 = (Inr (), b1)" and c1: "requestsMade b1 = 1"
    using run_first_of_window [OF _ assms(1), of t0] assms(3) ts
    by (simp_all add: b1_def prod_eq_iff)
  have lim: "limitNo b1 = limitNo b" and per: "limitPeriod b1 = limitPeriod b"
    by (simp_all add: b1_def)
  have act: "\<forall>t \<in> set rest. of_int t - since b1 < limitPeriod b1 * 1000"
    and act': "of_int t' - since b1 < limitPeriod b1 * 1000"
    using assms(4) ts by (simp_all add: b1_def)
  have len: "int (length rest) + 1 = limitNo b"
    using assms(1,2) ts by simp
  have pre: "run_each b (take k ts) =
      (replicate k (Inr ()), b1\<lparr>requestsMade := int k\<rparr>)" if "0 < k" "k \<le> length ts" for k
  proof -
    from that(1) obtain j where k: "k = Suc j" by (cases k) auto
    have "\<forall>t \<in> set (take j rest). of_int t - since b1 < limitPeriod b1 * 1000"
      using act by (auto dest: in_set_takeD)
    moreover have "requestsMade b1 + int (length (take j rest)) \<le> limitNo b1"
      using c1 lim len that(2) k ts by simp
    ultimately have "run_each b1 (take j rest) =
        (replicate (length (take j rest)) (Inr ()),
         b1\<lparr>requestsMade := requestsMade b1 + int (length (take j rest))\<rparr>)"
      by (rule run_each_active_below)
    moreover have "length (take j rest) = j" using that(2) k ts by simp
    ultimately show ?thesis using first c1 k ts by simp
  qed
  have all: "run_each b ts = (replicate (length ts) (Inr ()), b1\<lparr>requestsMade := int (length ts)\<rparr>)"
    using pre [of "length ts"] ts by simp
  let ?bL = "b1\<lparr>requestsMade := int (length ts)\<rparr>"
  have "of_int t' - since ?bL < limitPeriod ?bL * 1000" using act' by simp
  moreover have "limitNo ?bL \<le> requestsMade ?bL" using lim len ts by simp
  ultimately have "run ?bL t' =
       (Inl (RatelimitError ''Too many requests'' (Some 429)
              (Some ((since ?bL + limitPeriod ?bL * 1000 - of_int t') / 1000 + 5)) True), ?bL)"
    by (rule run_active_full)
  then have last: "\<exists>e. run (snd (run_each b ts)) t' = (Inl e, snd (run_each b ts)) \<and> is_RatelimitError e"
    using all by simp
  have "requestsMade (snd (run_each b ts)) = limitNo b"
    using all len ts by simp
  with pre last show ?thesis by simp
qed

theorem run_limit_per_window_witness:
  "run_each (makeRatelimit 2 60) [100000, 100001, 159999] =
     ([Inr (), Inr (), Inl (RatelimitError ''Too many requests'' (Some 429) (Some (5001/1000)) True)],
      \<lparr>limitNo = 2, limitPeriod = 60, since = 100000, requestsMade = 2\<rparr>)"
  using run_limit_per_window [of "makeRatelimit 2 60" "[100000, 100001]" 159999]
  by (simp add: run_def makeRatelimit_def new_RatelimitError_def error_message_def)

lemma run_triggered_refuses:
  assumes "of_int t < of_int t0 + (r + limitPeriod b) * 1000"
  shows "\<exists>e. run (trigger b r t0) t = (Inl e, trigger b r t0) \<and> is_RatelimitError e \<and> exn_isLocal e = Some True"
proof -
  have "of_int t - since (trigger b r t0) < limitPeriod (trigger b r t0) * 1000"
    using assms by (simp add: algebra_simps)
  moreover have "limitNo (trigger b r t0) \<le> requestsMade (trigger b r t0)" by simp
  ultimately show ?thesis by (simp add: run_active_full)
qed

lemma run_triggered_resumes:
  assumes "of_int t0 + (r + limitPeriod b) * 1000 \<le> of_int t"
  shows "fst (run (trigger b r t0) t) = Inr ()"
proof -
  have "limitPeriod (trigger b r t0) * 1000 \<le> of_int t - since (trigger b r t0)"
    using assms by (simp add: algebra_simps)
  then show ?thesis by (simp add: run_expired)
qed

section \<open>Properties of the cache\<close>


lemma getCache_miss_later:
  "\<not> truthy (getCache st k now) \<Longrightarrow> now \<le> t \<Longrightarrow> \<not> truthy (getCache st k t)"
  by (auto simp: getCache_def split: option.splits if_splits)

lemma getCache_forget [simp]:
  "getCache (st\<lparr>cache := (cache st)(k := None)\<rparr>) k now = Undefined"
  by (simp add: getCache_def)

lemma setCache_fields [simp]:
  "sent (setCache st k v t) = sent st" "globalRatelimit (setCache st k v t) = globalRatelimit st"
  "reverseRatelimit (setCache st k v t) = reverseRatelimit st" "token (setCache st k v t) = token st"
  by (simp_all add: setCache_def)



section \<open>Properties of makeRequest\<close>

lemma state_update_same [simp]: "st\<lparr>globalRatelimit := globalRatelimit st\<rparr> = st"
  "st\<lparr>reverseRatelimit := reverseRatelimit st\<rparr> = st"
  by simp_all

lemma makeRequest_refused:
  assumes "fst (run (globalRatelimit st) now) = Inl e"
  shows "makeRequest fetch st uri now now' = (Inl e, st)"
proof -
  have "run (globalRatelimit st) now = (Inl e, globalRatelimit st)"
    using assms run_Inl_unchanged [OF assms] by (cases "run (globalRatelimit st) now") simp
  then show ?thesis by (simp add: makeRequest_def)
qed

lemma makeRequest_permitted:
  assumes "fst (run (globalRatelimit st) now) = Inr ()"
  shows "makeRequest fetch st uri now now' =
     (case fetch \<lparr>url = BASE_URL @ uri, headers = [(''authorization'', token st)]\<rparr> of
        None \<Rightarrow> (Inl FetchError, issued st uri now)
      | Some res \<Rightarrow>
          (case res_json res of
             None \<Rightarrow> (Inl FetchError, issued st uri now)
           | Some js \<Rightarrow>
               if ok res then (Inr js, issued st uri now)
               else if res_status res = 429 then
                 (case get_error js of
                    Inl e \<Rightarrow> (Inl e, issued st uri now)
                  | Inr None \<Rightarrow> (Inl TypeError, issued st uri now)
                  | Inr (Some err) \<Rightarrow>
                      (Inl (new_RatelimitError err),
                       (issued st uri now)\<lparr>globalRatelimit :=
                          trigger (snd (run (globalRatelimit st) now)) (retry_hint err) now'\<rparr>))
               else if res_status res = 404 then (Inr (JValue Undefined), issued st uri now)
               else
                 (case get_error js of
                    Inl e \<Rightarrow> (Inl e, issued st uri now)
                  | Inr (Some err) \<Rightarrow> (Inl (new_HttpError err), issued st uri now)
                  | Inr None \<Rightarrow> (Inl Error, issued st uri now))))"
proof -
  obtain g where g: "run (globalRatelimit st) now = (Inr (), g)"
    using assms by (cases "run (globalRatelimit st) now") simp
  then show ?thesis
    by (simp add: makeRequest_def issued_def Let_def split: option.splits sum.splits)
qed

lemma issued_fields [simp]:
  "cache (issued st uri now) = cache st" "token (issued st uri now) = token st"
  "cacheTime (issued st uri now) = cacheTime st"
  "reverseRatelimit (issued st uri now) = reverseRatelimit st"
  "globalRatelimit (issued st uri now) = snd (run (globalRatelimit st) now)"
  "sent (issued st uri now) = sent st @ [\<lparr>url = BASE_URL @ uri, headers = [(''authorization'', token st)]\<rparr>]"
  by (simp_all add: issued_def)

lemma getCache_issued [simp]: "getCache (issued st uri now) k t = getCache st k t"
  by (simp add: getCache_def)

lemma makeRequest_sent:
  "sent (snd (makeRequest fetch st uri now now')) =
     (if fst (run (globalRatelimit st) now) = Inr ()
      then sent st @ [\<lparr>url = BASE_URL @ uri, headers = [(''authorization'', token st)]\<rparr>]
      else sent st)"
proof (cases "fst (run (globalRatelimit st) now)")
  case (Inl e)
  then show ?thesis by (simp add: makeRequest_refused)
next
  case (Inr u)
  then have "fst (run (globalRatelimit st) now) = Inr ()" by simp
  then show ?thesis
    by (simp add: makeRequest_permitted split: option.splits sum.splits)
qed

lemma makeRequest_keeps:
  "reverseRatelimit (snd (makeRequest fetch st uri now now')) = reverseRatelimit st"
  "cache (snd (makeRequest fetch st uri now now')) = cache st"
  "token (snd (makeRequest fetch st uri now now')) = token st"
  "cacheTime (snd (makeRequest fetch st uri now now')) = cacheTime st"
  by (cases "fst (run (globalRatelimit st) now)";
      simp add: makeRequest_def Let_def split: prod.splits sum.splits option.splits)+



lemma makeRequest_429:
  assumes "fst (run (globalRatelimit st) now) = Inr ()"
    and "fetch \<lparr>url = BASE_URL @ uri, headers = [(''authorization'', token st)]\<rparr> = Some res"
    and "res_status res = 429" and "res_json res = Some (JObject b)" and "error b = Some err"
  shows "makeRequest fetch st uri now now' =
           (Inl (new_RatelimitError err),
            (issued st uri now)\<lparr>globalRatelimit :=
               trigger (snd (run (globalRatelimit st) now)) (retry_hint err) now'\<rparr>)"
  using assms(2-5) by (simp add: makeRequest_permitted [OF assms(1)] ok_def)






section \<open>Properties of the lookups\<close>

lemma getRoblox_miss:
  assumes "\<not> truthy (getCache st (''d-'' @ i) now)"
  shows "getRoblox fetch st i now now' =
     (case makeRequest fetch st (''/api/roblox/'' @ i) now now' of
        (Inl e, st1) \<Rightarrow> (Inl e, st1)
      | (Inr full, st1) \<Rightarrow>
          if \<not> truthy_json full then (Inr Undefined, st1)
          else (Inr (and_prop full robloxId), setCache st1 (''d-'' @ i) (and_prop full robloxId) now'))"
  using assms by (simp add: getRoblox_def Let_def split: prod.splits sum.splits)

lemma getDiscord_miss:
  assumes "\<not> truthy (getCache st (''r-'' @ j) now)"
  shows "getDiscord fetch st j now now' =
     (case run (reverseRatelimit st) now of
        (Inl e, r) \<Rightarrow> (Inl e, st\<lparr>reverseRatelimit := r\<rparr>)
      | (Inr u, r) \<Rightarrow>
          (case makeRequest fetch (st\<lparr>reverseRatelimit := r\<rparr>) (''/api/reverse/'' @ j) now now' of
             (Inl e, st1) \<Rightarrow> (Inl e, st1)
           | (Inr full, st1) \<Rightarrow>
               if \<not> truthy_json full then (Inr Undefined, st1)
               else (Inr (and_prop full discordId), setCache st1 (''r-'' @ j) (and_prop full discordId) now')))"
  using assms by (simp add: getDiscord_def Let_def split: prod.splits sum.splits)



lemma getRoblox_miss_refused:
  assumes "\<not> truthy (getCache st (''d-'' @ i) now)" and "fst (run (globalRatelimit st) now) = Inl e"
  shows "getRoblox fetch st i now now' = (Inl e, st)"
  by (simp add: getRoblox_miss [OF assms(1)] makeRequest_refused [OF assms(2)])

lemma getDiscord_miss_reverse_refused:
  assumes "\<not> truthy (getCache st (''r-'' @ j) now)" and "fst (run (reverseRatelimit st) now) = Inl e"
  shows "getDiscord fetch st j now now' = (Inl e, st)"
proof -
  have "run (reverseRatelimit st) now = (Inl e, reverseRatelimit st)"
    using assms(2) run_Inl_unchanged [OF assms(2)] by (cases "run (reverseRatelimit st) now") simp
  then show ?thesis by (simp add: getDiscord_miss [OF assms(1)])
qed

lemma getDiscord_miss_permitted:
  assumes "\<not> truthy (getCache st (''r-'' @ j) now)" and "fst (run (reverseRatelimit st) now) = Inr ()"
  shows "getDiscord fetch st j now now' =
          (case makeRequest fetch (st\<lparr>reverseRatelimit := snd (run (reverseRatelimit st) now)\<rparr>)
                  (''/api/reverse/'' @ j) now now' of
             (Inl e, st1) \<Rightarrow> (Inl e, st1)
           | (Inr full, st1) \<Rightarrow>
               if \<not> truthy_json full then (Inr Undefined, st1)
               else (Inr (and_prop full discordId), setCache st1 (''r-'' @ j) (and_prop full discordId) now'))"
proof -
  obtain r where r: "run (reverseRatelimit st) now = (Inr (), r)"
    using assms(2) by (cases "run (reverseRatelimit st) now") simp
  then show ?thesis by (simp add: getDiscord_miss [OF assms(1)])
qed



lemma getDiscord_miss_outcomes:
  assumes miss: "\<not> truthy (getCache st (''r-'' @ j) now)"
  shows "reverseRatelimit (snd (getDiscord fetch st j now now')) = snd (run (reverseRatelimit st) now)"
    and "fst (run (reverseRatelimit st) now) = Inr () \<Longrightarrow> fst (run (globalRatelimit st) now) = Inl e \<Longrightarrow>
           getDiscord fetch st j now now' = (Inl e, st\<lparr>reverseRatelimit := snd (run (reverseRatelimit st) now)\<rparr>)"
    and "fst (run (reverseRatelimit st) now) = Inr () \<Longrightarrow> fst (run (globalRatelimit st) now) = Inr () \<Longrightarrow>
           sent (snd (getDiscord fetch st j now now')) =
             sent st @ [\<lparr>url = BASE_URL @ ''/api/reverse/'' @ j, headers = [(''authorization'', token st)]\<rparr>]"
proof -
  show "reverseRatelimit (snd (getDiscord fetch st j now now')) = snd (run (reverseRatelimit st) now)"
  proof (cases "fst (run (reverseRatelimit st) now)")
    case (Inl e)
    from getDiscord_miss_reverse_refused [OF miss this, of fetch now'] run_Inl_unchanged [OF Inl]
    show ?thesis by simp
  next
    case (Inr u)
    then have "fst (run (reverseRatelimit st) now) = Inr ()" by simp
    from getDiscord_miss_permitted [OF miss this, of fetch now']
      makeRequest_keeps(1) [of fetch "st\<lparr>reverseRatelimit := snd (run (reverseRatelimit st) now)\<rparr>" "''/api/reverse/'' @ j" now now']
    show ?thesis
      by (auto split: prod.splits sum.splits if_splits)
  qed
next
  assume r: "fst (run (reverseRatelimit st) now) = Inr ()" and g: "fst (run (globalRatelimit st) now) = Inl e"
  let ?st = "st\<lparr>reverseRatelimit := snd (run (reverseRatelimit st) now)\<rparr>"
  have "fst (run (globalRatelimit ?st) now) = Inl e" using g by simp
  from makeRequest_refused [OF this, of fetch "''/api/reverse/'' @ j" now'] getDiscord_miss_permitted [OF miss r, of fetch now']
  show "getDiscord fetch st j now now' = (Inl e, ?st)" by simp
next
  assume r: "fst (run (reverseRatelimit st) now) = Inr ()" and g: "fst (run (globalRatelimit st) now) = Inr ()"
  let ?st = "st\<lparr>reverseRatelimit := snd (run (reverseRatelimit st) now)\<rparr>"
  have "sent (snd (getDiscord fetch st j now now')) = sent (snd (makeRequest fetch ?st (''/api/reverse/'' @ j) now now'))"
    using getDiscord_miss_permitted [OF miss r, of fetch now'] by (simp split: prod.splits sum.splits)
  also have "\<dots> = sent ?st @ [\<lparr>url = BASE_URL @ ''/api/reverse/'' @ j, headers = [(''authorization'', token ?st)]\<rparr>]"
    using g by (simp add: makeRequest_sent)
  finally show "sent (snd (getDiscord fetch st j now now')) =
             sent st @ [\<lparr>url = BASE_URL @ ''/api/reverse/'' @ j, headers = [(''authorization'', token st)]\<rparr>]"
    by simp
qed


lemma getRoblox_404:
  assumes "\<not> truthy (getCache st (''d-'' @ i) now)"
    and "fst (run (globalRatelimit st) now) = Inr ()"
    and "fetch \<lparr>url = BASE_URL @ ''/api/roblox/'' @ i, headers = [(''authorization'', token st)]\<rparr> = Some res"
    and "res_status res = 404" and "res_json res = Some js"
  shows "getRoblox fetch st i now now' = (Inr Undefined, issued st (''/api/roblox/'' @ i) now)"
  using assms
  by (simp add: getRoblox_def Let_def makeRequest_permitted ok_def)

text \<open>
  C1 as stated fails: on the fresh module with a service that answers 404, the lookup of
  id 123 stores nothing under \<open>d-123\<close>, and the same lookup 200 ms later, well within
  the 60 s of \<open>cacheTime\<close>, sends a second request.
\<close>

theorem getRoblox_not_found_cached_counterexample:
  "fst (getRoblox fetch404 initial ''123'' 1000000 1000100) = Inr Undefined
   \<and> cache (snd (getRoblox fetch404 initial ''123'' 1000000 1000100)) ''d-123'' = None
   \<and> length (sent (snd (getRoblox fetch404 initial ''123'' 1000000 1000100))) = 1
   \<and> length (sent (snd (getRoblox fetch404 (snd (getRoblox fetch404 initial ''123'' 1000000 1000100)) ''123'' 1000200 1000300))) = 2"
  by (simp add: getRoblox_def makeRequest_def getCache_def initial_def run_def makeRatelimit_def fetch404_def ok_def Let_def)

text \<open>
  C1, as the code has it: when a forward lookup misses the cache, the global bucket lets
  it through and the service answers 404, \<open>getRoblox\<close> returns \<open>undefined\<close> ("not found",
  no error) and leaves the cache as it was; a second lookup of the same id at a later
  time that the bucket lets through sends a second request, and returns \<open>undefined\<close> again.
\<close>

theorem getRoblox_not_found_not_cached:
  assumes "\<not> truthy (getCache st (''d-'' @ i) now)"
    and "fst (run (globalRatelimit st) now) = Inr ()"
    and "fetch \<lparr>url = BASE_URL @ ''/api/roblox/'' @ i, headers = [(''authorization'', token st)]\<rparr> = Some res"
    and "res_status res = 404" and "res_json res = Some js"
    and "now \<le> t" and "fst (run (snd (run (globalRatelimit st) now)) t) = Inr ()"
  shows "fst (getRoblox fetch st i now now') = Inr Undefined
       \<and> cache (snd (getRoblox fetch st i now now')) = cache st
       \<and> fst (getRoblox fetch (snd (getRoblox fetch st i now now')) i t t') = Inr Undefined
       \<and> sent (snd (getRoblox fetch (snd (getRoblox fetch st i now now')) i t t'))
           = sent st @ [\<lparr>url = BASE_URL @ ''/api/roblox/'' @ i, headers = [(''authorization'', token st)]\<rparr>,
                        \<lparr>url = BASE_URL @ ''/api/roblox/'' @ i, headers = [(''authorization'', token st)]\<rparr>]"
proof -
  let ?st1 = "issued st (''/api/roblox/'' @ i) now"
  have one: "getRoblox fetch st i now now' = (Inr Undefined, ?st1)"
    using assms(1-5) by (rule getRoblox_404)
  have miss: "\<not> truthy (getCache ?st1 (''d-'' @ i) t)"
    using getCache_miss_later [OF assms(1,6)] by simp
  have two: "getRoblox fetch ?st1 i t t' = (Inr Undefined, issued ?st1 (''/api/roblox/'' @ i) t)"
    using miss assms(3-5,7) by (intro getRoblox_404) simp_all
  show ?thesis using one two by simp
qed

theorem getRoblox_not_found_not_cached_witness:
  "fst (getRoblox fetch404 initial ''123'' 1000000 1000100) = Inr Undefined
   \<and> cache (snd (getRoblox fetch404 initial ''123'' 1000000 1000100)) = Map.empty
   \<and> fst (getRoblox fetch404 (snd (getRoblox fetch404 initial ''123'' 1000000 1000100)) ''123'' 1000200 1000300) = Inr Undefined
   \<and> sent (snd (getRoblox fetch404 (snd (getRoblox fetch404 initial ''123'' 1000000 1000100)) ''123'' 1000200 1000300))
       = [\<lparr>url = ''https://verify.nezto.re/api/roblox/123'', headers = [(''authorization'', None)]\<rparr>,
          \<lparr>url = ''https://verify.nezto.re/api/roblox/123'', headers = [(''authorization'', None)]\<rparr>]"
  using getRoblox_not_found_not_cached [of initial "''123''" 1000000 fetch404
      "\<lparr>res_status = 404, res_json = Some (JObject \<lparr>error = Some \<lparr>status = Some 404, message = Some ''User not found'', retryAfter = None, isLocal = None\<rparr>, robloxId = Undefined, discordId = Undefined\<rparr>)\<rparr>"
      "JObject \<lparr>error = Some \<lparr>status = Some 404, message = Some ''User not found'', retryAfter = None, isLocal = None\<rparr>, robloxId = Undefined, discordId = Undefined\<rparr>"
      1000200 1000100 1000300]
  by (simp add: getCache_def initial_def run_def makeRatelimit_def fetch404_def BASE_URL_def)

text \<open>
  C4 as stated fails: when the error body of the 429 carries the hint \<open>retryAfter = 0\<close>,
  the global bucket is triggered with 3000 and not with the hint, and a lookup 60 s after
  the trigger (hint plus period) still fails locally, with 3005 s left to wait.
\<close>

theorem remote_429_counterexample:
  "globalRatelimit (snd (makeRequest (fetch429 (Some 0)) initial ''/api/roblox/123'' 1000000 1000100))
     = trigger \<lparr>limitNo = 60, limitPeriod = 60, since = 1000000, requestsMade = 1\<rparr> 3000 1000100
   \<and> globalRatelimit (snd (makeRequest (fetch429 (Some 0)) initial ''/api/roblox/123'' 1000000 1000100))
     \<noteq> trigger \<lparr>limitNo = 60, limitPeriod = 60, since = 1000000, requestsMade = 1\<rparr> 0 1000100
   \<and> fst (getRoblox fetch_found
            (snd (makeRequest (fetch429 (Some 0)) initial ''/api/roblox/123'' 1000000 1000100))
            ''123'' 1060100 1060200)
     = Inl (RatelimitError ''Too many requests'' (Some 429) (Some 3005) True)"
  by (simp add: getRoblox_def makeRequest_def getCache_def initial_def run_def trigger_def makeRatelimit_def
        fetch429_def ok_def retry_hint_def new_RatelimitError_def error_message_def Let_def)

text \<open>
  C4, as the code has it: when the global bucket lets \<open>makeRequest\<close> through and the
  service answers 429 with an error object (not itself flagged \<open>isLocal\<close>), the global
  bucket is triggered at the time of the response with the hint \<open>retryAfter\<close> of that object
  when it is there and not zero, and with 3000 when it is missing or zero; \<open>makeRequest\<close>
  then throws a \<open>RatelimitError\<close> built from the object, with \<open>isLocal = false\<close>. From any
  state whose global bucket is the triggered one, a lookup in either direction that misses
  the cache at a time before hint plus period have passed since the trigger fails with a
  local \<open>RatelimitError\<close>, sends no request and leaves the global bucket triggered; at
  any time from then on \<open>run()\<close> of the global bucket succeeds again.
\<close>

theorem remote_429_triggers_global_bucket:
  assumes "fst (run (globalRatelimit st) now) = Inr ()"
    and "fetch \<lparr>url = BASE_URL @ uri, headers = [(''authorization'', token st)]\<rparr> = Some res"
    and "res_status res = 429" and "res_json res = Some (JObject b)" and "error b = Some err"
    and "isLocal err \<noteq> Some True"
    and "hint = (case retryAfter err of Some r \<Rightarrow> if r \<noteq> 0 then r else 3000 | None \<Rightarrow> 3000)"
    and "g = trigger (snd (run (globalRatelimit st) now)) hint now'"
  shows "fst (makeRequest fetch st uri now now') = Inl (new_RatelimitError err)
       \<and> is_RatelimitError (new_RatelimitError err)
       \<and> exn_isLocal (new_RatelimitError err) = Some False
       \<and> globalRatelimit (snd (makeRequest fetch st uri now now')) = g
       \<and> (\<forall>s f i t t'. globalRatelimit s = g
              \<and> of_int t < of_int now' + (hint + limitPeriod (globalRatelimit st)) * 1000 \<longrightarrow>
            (\<not> truthy (getCache s (''d-'' @ i) t) \<longrightarrow>
               (\<exists>e. getRoblox f s i t t' = (Inl e, s) \<and> is_RatelimitError e \<and> exn_isLocal e = Some True))
          \<and> (\<not> truthy (getCache s (''r-'' @ i) t) \<longrightarrow>
               (\<exists>e. fst (getDiscord f s i t t') = Inl e \<and> is_RatelimitError e \<and> exn_isLocal e = Some True
                   \<and> sent (snd (getDiscord f s i t t')) = sent s
                   \<and> globalRatelimit (snd (getDiscord f s i t t')) = g)))
       \<and> (\<forall>t. of_int now' + (hint + limitPeriod (globalRatelimit st)) * 1000 \<le> of_int t \<longrightarrow>
            fst (run g t) = Inr ())"
proof -
  let ?g1 = "snd (run (globalRatelimit st) now)"
  have hint: "hint = retry_hint err" using assms(7) by (simp add: retry_hint_def)
  have mk: "makeRequest fetch st uri now now' =
      (Inl (new_RatelimitError err), (issued st uri now)\<lparr>globalRatelimit := g\<rparr>)"
    using makeRequest_429 [of st now fetch uri res b err now'] assms(1-5,8) hint by simp
  have per: "limitPeriod ?g1 = limitPeriod (globalRatelimit st)" by simp
  have loc: "exn_isLocal (new_RatelimitError err) = Some False"
    using assms(6) by (cases "isLocal err") (simp_all add: new_RatelimitError_def)
  have later: "\<And>s f i t t'. globalRatelimit s = g \<Longrightarrow>
        of_int t < of_int now' + (hint + limitPeriod (globalRatelimit st)) * 1000 \<Longrightarrow>
        (\<not> truthy (getCache s (''d-'' @ i) t) \<longrightarrow>
               (\<exists>e. getRoblox f s i t t' = (Inl e, s) \<and> is_RatelimitError e \<and> exn_isLocal e = Some True))
          \<and> (\<not> truthy (getCache s (''r-'' @ i) t) \<longrightarrow>
               (\<exists>e. fst (getDiscord f s i t t') = Inl e \<and> is_RatelimitError e \<and> exn_isLocal e = Some True
                   \<and> sent (snd (getDiscord f s i t t')) = sent s
                   \<and> globalRatelimit (snd (getDiscord f s i t t')) = g))"
  proof -
    fix s :: state and f :: http and i :: string and t t' :: int
    assume s: "globalRatelimit s = g"
      and t: "of_int t < of_int now' + (hint + limitPeriod (globalRatelimit st)) * 1000"
    from t per have "of_int t < of_int now' + (hint + limitPeriod ?g1) * 1000" by simp
    from run_triggered_refuses [OF this] obtain e
      where e: "run g t = (Inl e, g)" "is_RatelimitError e" "exn_isLocal e = Some True"
      using assms(8) by auto
    then have ge: "fst (run (globalRatelimit s) t) = Inl e" using s by simp
    have fw: "getRoblox f s i t t' = (Inl e, s)" if "\<not> truthy (getCache s (''d-'' @ i) t)"
      using that ge by (rule getRoblox_miss_refused)
    have bw: "\<exists>e. fst (getDiscord f s i t t') = Inl e \<and> is_RatelimitError e \<and> exn_isLocal e = Some True
                   \<and> sent (snd (getDiscord f s i t t')) = sent s
                   \<and> globalRatelimit (snd (getDiscord f s i t t')) = g"
      if miss: "\<not> truthy (getCache s (''r-'' @ i) t)"
    proof (cases "fst (run (reverseRatelimit s) t)")
      case (Inl e')
      from getDiscord_miss_reverse_refused [OF miss Inl, of f t'] run_Inl_local [OF Inl] s
      show ?thesis by simp
    next
      case (Inr u)
      then have r: "fst (run (reverseRatelimit s) t) = Inr ()" by simp
      from getDiscord_miss_outcomes(2) [OF miss r ge, of f t'] e(2,3) s
      show ?thesis by simp
    qed
    from fw bw e(2,3) show "(\<not> truthy (getCache s (''d-'' @ i) t) \<longrightarrow>
               (\<exists>e. getRoblox f s i t t' = (Inl e, s) \<and> is_RatelimitError e \<and> exn_isLocal e = Some True))
          \<and> (\<not> truthy (getCache s (''r-'' @ i) t) \<longrightarrow>
               (\<exists>e. fst (getDiscord f s i t t') = Inl e \<and> is_RatelimitError e \<and> exn_isLocal e = Some True
                   \<and> sent (snd (getDiscord f s i t t')) = sent s
                   \<and> globalRatelimit (snd (getDiscord f s i t t')) = g))"
      by blast
  qed
  have resume: "\<And>t. of_int now' + (hint + limitPeriod (globalRatelimit st)) * 1000 \<le> of_int t \<Longrightarrow>
            fst (run g t) = Inr ()"
    using run_triggered_resumes [of now' hint ?g1] assms(8) per by simp
  have m1: "fst (makeRequest fetch st uri now now') = Inl (new_RatelimitError err)"
    and m2: "globalRatelimit (snd (makeRequest fetch st uri now now')) = g"
    by (simp_all add: mk)
  have m3: "is_RatelimitError (new_RatelimitError err)" by (simp add: new_RatelimitError_def)
  from m1 m2 m3 loc later resume show ?thesis by blast
qed

theorem remote_429_triggers_global_bucket_witness:
  "fst (makeRequest (fetch429 (Some 5)) initial ''/api/roblox/123'' 1000000 1000100)
     = Inl (RatelimitError ''Too many requests'' (Some 429) (Some 5) False)
   \<and> globalRatelimit (snd (makeRequest (fetch429 (Some 5)) initial ''/api/roblox/123'' 1000000 1000100))
     = \<lparr>limitNo = 60, limitPeriod = 60, since = 1005100, requestsMade = 60\<rparr>
   \<and> (\<exists>e. getRoblox fetch_found
             (snd (makeRequest (fetch429 (Some 5)) initial ''/api/roblox/123'' 1000000 1000100))
             ''123'' 1065099 1065199
           = (Inl e, snd (makeRequest (fetch429 (Some 5)) initial ''/api/roblox/123'' 1000000 1000100))
         \<and> exn_isLocal e = Some True)
   \<and> fst (run \<lparr>limitNo = 60, limitPeriod = 60, since = 1005100, requestsMade = 60\<rparr> 1065100) = Inr ()"
proof -
  let ?err = "\<lparr>status = Some 429, message = Some ''Too many requests'', retryAfter = Some 5, isLocal = None\<rparr>"
  let ?b = "\<lparr>error = Some ?err, robloxId = Undefined, discordId = Undefined\<rparr>"
  let ?res = "\<lparr>res_status = 429, res_json = Some (JObject ?b)\<rparr>"
  let ?g = "\<lparr>limitNo = 60, limitPeriod = 60, since = 1005100, requestsMade = 60\<rparr>"
  let ?s = "snd (makeRequest (fetch429 (Some 5)) initial ''/api/roblox/123'' 1000000 1000100)"
  have h1: "fst (run (globalRatelimit initial) 1000000) = Inr ()"
    by (simp add: initial_def run_def makeRatelimit_def)
  have h2: "fetch429 (Some 5) \<lparr>url = BASE_URL @ ''/api/roblox/123'', headers = [(''authorization'', token initial)]\<rparr> = Some ?res"
    by (simp add: fetch429_def)
  have h3: "res_status ?res = 429" and h4: "res_json ?res = Some (JObject ?b)"
    and h5: "error ?b = Some ?err" and h6: "isLocal ?err \<noteq> Some True"
    by simp_all
  have h7: "(5::rat) = (case retryAfter ?err of Some r \<Rightarrow> if r \<noteq> 0 then r else 3000 | None \<Rightarrow> 3000)"
    by simp
  have h8: "?g = trigger (snd (run (globalRatelimit initial) 1000000)) 5 1000100"
    by (simp add: initial_def run_def trigger_def makeRatelimit_def)
  note T = remote_429_triggers_global_bucket
    [where st = initial and now = 1000000 and fetch = "fetch429 (Some 5)" and uri = "''/api/roblox/123''"
       and res = ?res and b = ?b and err = ?err and hint = 5 and g = ?g and now' = 1000100,
     OF h1 h2 h3 h4 h5 h6 h7 h8]
  have g: "globalRatelimit ?s = ?g" using T by blast
  have c: "\<not> truthy (getCache ?s ''d-123'' 1065099)"
    by (simp add: getCache_def makeRequest_keeps initial_def)
  have t: "of_int 1065099 < of_int 1000100 + (5 + limitPeriod (globalRatelimit initial)) * 1000"
    by (simp add: initial_def makeRatelimit_def)
  from T g c t have "\<exists>e. getRoblox fetch_found ?s ''123'' 1065099 1065199 = (Inl e, ?s)
      \<and> is_RatelimitError e \<and> exn_isLocal e = Some True"
    by (metis append_Cons append_Nil)
  moreover have "fst (run ?g 1065100) = Inr ()"
    using T by (simp add: initial_def makeRatelimit_def)
  moreover have "fst (makeRequest (fetch429 (Some 5)) initial ''/api/roblox/123'' 1000000 1000100)
     = Inl (RatelimitError ''Too many requests'' (Some 429) (Some 5) False)"
    using T by (simp add: new_RatelimitError_def error_message_def)
  ultimately show ?thesis using g by blast
qed





end
